theory Spec2Isabelle
  imports Complex_Main
begin

section \<open>Exact Riemann solver of the LWR traffic model\<close>

text \<open>
  The notebook defines \<^verbatim>\<open>riemann_traffic_exact(q_l, q_r)\<close> twice. The first definition
  returns a closure \<^verbatim>\<open>reval\<close> that takes one scalar \<open>\<xi>\<close>; the second one, which replaces it
  when the notebook is run, returns \<^verbatim>\<open>states, speeds, reval\<close> where \<^verbatim>\<open>reval\<close> works on
  numpy arrays. Both are embedded here, the second one under the source's name.

  Python floats appear in two ways. In the embedding of the two definitions they are
  idealised as \<^typ>\<open>real\<close>, and the statements about these are statements about exact
  arithmetic. Where rounding decides a statement, the same code is embedded once more over
  IEEE binary64 numbers (subsection on double precision); those definitions carry the
  suffix \<open>_d\<close>.
\<close>

subsection \<open>Values and errors\<close>

datatype py_error = ZeroDivisionError | TypeError

text \<open>Division of Python floats raises on a zero divisor.\<close>

definition py_div :: "real \<Rightarrow> real \<Rightarrow> py_error + real" where
  "py_div a b = (if b = 0 then Inl ZeroDivisionError else Inr (a / b))"

text \<open>
  An entry of the list \<^verbatim>\<open>speeds\<close>: a bare float for a shock (\<^verbatim>\<open>[shock_speed]\<close>), a
  two-element list for a rarefaction fan (\<^verbatim>\<open>[[c_l,c_r]]\<close>).
\<close>

datatype wave_speed = Shock real | Rarefaction real real

text \<open>
  What the \<^verbatim>\<open>reval\<close> of the second definition may be handed: a bare float or a
  one-dimensional numpy array of floats. Arithmetic and comparisons on an array act entry
  by entry.
\<close>

datatype xi_arg = Scalar real | Array "real list"

text \<open>The flux \<^verbatim>\<open>f = lambda q: q*(1-q)\<close>.\<close>

definition f :: "real \<Rightarrow> real" where
  "f q = q * (1 - q)"

subsection \<open>First definition: scalar \<open>reval\<close>\<close>

text \<open>
  \<^verbatim>\<open>if xi < shock_speed: return q_l / else: return q_r\<close>
\<close>

definition shock_reval_scalar :: "real \<Rightarrow> real \<Rightarrow> real \<Rightarrow> real \<Rightarrow> real" where
  "shock_reval_scalar q_l q_r shock_speed xi = (if xi < shock_speed then q_l else q_r)"

text \<open>
  \<^verbatim>\<open>if xi < c_l: return q_l / elif xi > c_r: return q_r / else: return (1.-xi)/2.\<close>
\<close>

definition raref_reval_scalar :: "real \<Rightarrow> real \<Rightarrow> real \<Rightarrow> real \<Rightarrow> real \<Rightarrow> real" where
  "raref_reval_scalar q_l q_r c_l c_r xi =
     (if xi < c_l then q_l else if xi > c_r then q_r else (1 - xi) / 2)"

text \<open>
  The first \<^verbatim>\<open>riemann_traffic_exact\<close>. Its caller applies the closure to one float at a
  time (\<^verbatim>\<open>[reval(xxi) for xxi in xi]\<close>), so the closure is modelled on floats only.
\<close>

definition riemann_traffic_exact_scalar :: "real \<Rightarrow> real \<Rightarrow> py_error + (real \<Rightarrow> real)" where
  "riemann_traffic_exact_scalar q_l q_r =
     (if q_r > q_l then
        (case py_div (f q_l - f q_r) (q_l - q_r) of
           Inl e \<Rightarrow> Inl e
         | Inr shock_speed \<Rightarrow> Inr (shock_reval_scalar q_l q_r shock_speed))
      else
        (let c_l = 1 - 2 * q_l; c_r = 1 - 2 * q_r
         in Inr (raref_reval_scalar q_l q_r c_l c_r)))"

subsection \<open>Second definition: \<open>states\<close>, \<open>speeds\<close> and array \<open>reval\<close>\<close>

text \<open>
  One entry of the row assigned to \<^verbatim>\<open>q[0,:]\<close>. A numpy comparison gives booleans, which
  multiply as 0 and 1:
  \<^verbatim>\<open>(xi < shock_speed)*q_l + (xi >=shock_speed)*q_r\<close>
\<close>

definition shock_elem :: "real \<Rightarrow> real \<Rightarrow> real \<Rightarrow> real \<Rightarrow> real" where
  "shock_elem q_l q_r shock_speed xi =
     of_bool (xi < shock_speed) * q_l + of_bool (xi \<ge> shock_speed) * q_r"

text \<open>
  \<^verbatim>\<open>(xi<=c_l)*q_l + (xi>=c_r)*q_r + (c_l<xi)*(xi<c_r)*(1.-xi)/2.\<close>
\<close>

definition raref_elem :: "real \<Rightarrow> real \<Rightarrow> real \<Rightarrow> real \<Rightarrow> real \<Rightarrow> real" where
  "raref_elem q_l q_r c_l c_r xi =
     of_bool (xi \<le> c_l) * q_l + of_bool (xi \<ge> c_r) * q_r
       + of_bool (c_l < xi) * of_bool (xi < c_r) * (1 - xi) / 2"

text \<open>
  \<^verbatim>\<open>q = np.zeros((1,len(xi))); q[0,:] = ...; return q\<close>: \<^verbatim>\<open>len\<close> of a float raises
  TypeError; for an array of \<open>n\<close> entries the result has shape \<open>(1, n)\<close>, a list holding
  one row.
\<close>

definition shock_reval :: "real \<Rightarrow> real \<Rightarrow> real \<Rightarrow> xi_arg \<Rightarrow> py_error + real list list" where
  "shock_reval q_l q_r shock_speed xi =
     (case xi of
        Scalar _ \<Rightarrow> Inl TypeError
      | Array xs \<Rightarrow>
          (let q = [replicate (length xs) 0]
           in Inr (q[0 := map (shock_elem q_l q_r shock_speed) xs])))"

definition raref_reval :: "real \<Rightarrow> real \<Rightarrow> real \<Rightarrow> real \<Rightarrow> xi_arg \<Rightarrow> py_error + real list list" where
  "raref_reval q_l q_r c_l c_r xi =
     (case xi of
        Scalar _ \<Rightarrow> Inl TypeError
      | Array xs \<Rightarrow>
          (let q = [replicate (length xs) 0]
           in Inr (q[0 := map (raref_elem q_l q_r c_l c_r) xs])))"

type_synonym solution = "real list list \<times> wave_speed list \<times> (xi_arg \<Rightarrow> py_error + real list list)"

definition riemann_traffic_exact :: "real \<Rightarrow> real \<Rightarrow> py_error + solution" where
  "riemann_traffic_exact q_l q_r =
     (if q_r > q_l then
        (case py_div (f q_l - f q_r) (q_l - q_r) of
           Inl e \<Rightarrow> Inl e
         | Inr shock_speed \<Rightarrow>
             Inr ([[q_l, q_r]], [Shock shock_speed], shock_reval q_l q_r shock_speed))
      else
        (let c_l = 1 - 2 * q_l; c_r = 1 - 2 * q_r
         in Inr ([[q_l, q_r]], [Rarefaction c_l c_r], raref_reval q_l q_r c_l c_r)))"

subsection \<open>Extreme wave speeds\<close>

text \<open>
  The source has no function for these; they name what the statements about the outer
  states need. A shock travels at one speed, a rarefaction fan covers the interval between
  its two characteristic speeds. The solver always returns exactly one wave, so the
  minimum and maximum below are over one entry.
\<close>

fun speed_lo :: "wave_speed \<Rightarrow> real" where
  "speed_lo (Shock s) = s"
| "speed_lo (Rarefaction a b) = min a b"

fun speed_hi :: "wave_speed \<Rightarrow> real" where
  "speed_hi (Shock s) = s"
| "speed_hi (Rarefaction a b) = max a b"

definition smallest_speed :: "wave_speed list \<Rightarrow> real" where
  "smallest_speed ws = Min (set (map speed_lo ws))"

definition largest_speed :: "wave_speed list \<Rightarrow> real" where
  "largest_speed ws = Max (set (map speed_hi ws))"

subsection \<open>The solver on an explicit store\<close>

text \<open>
  \<^verbatim>\<open>states\<close> and every \<^verbatim>\<open>q\<close> are numpy arrays and \<^verbatim>\<open>speeds\<close> is a Python list: mutable
  objects that the caller holds by reference. To speak about what a call of \<^verbatim>\<open>reval\<close>
  reads and writes, the solver is embedded a second time with these objects in a store.
  An address is a position in the store and allocation appends, so every address handed
  out is fresh. Floats are immutable and stay values; the array \<^verbatim>\<open>xi\<close> is only read by
  \<^verbatim>\<open>reval\<close> and is passed by its contents.
\<close>

datatype obj = NdArray "real list list" | PyList "wave_speed list"

type_synonym heap = "obj list"

definition alloc :: "obj \<Rightarrow> heap \<Rightarrow> nat \<times> heap" where
  "alloc ob h = (length h, h @ [ob])"

text \<open>
  \<^verbatim>\<open>q[0,:] = row\<close> on the array at address \<open>a\<close>. The address always holds the array
  allocated one line earlier; the other case is there only to make the function total.
\<close>

definition assign_row0 :: "nat \<Rightarrow> real list \<Rightarrow> heap \<Rightarrow> heap" where
  "assign_row0 a row h =
     (case h ! a of
        NdArray rows \<Rightarrow> h[a := NdArray (rows[0 := row])]
      | PyList _ \<Rightarrow> h)"

text \<open>
  The closure \<^verbatim>\<open>reval\<close> with the variables it captures: \<^verbatim>\<open>q_l, q_r, shock_speed\<close> in the
  shock branch, \<^verbatim>\<open>q_l, q_r, c_l, c_r\<close> in the rarefaction branch. All are floats of the
  enclosing call, never reassigned; neither \<^verbatim>\<open>states\<close> nor \<^verbatim>\<open>speeds\<close> is captured.
\<close>

datatype closure = Shock_closure real real real | Raref_closure real real real real

text \<open>One call \<^verbatim>\<open>reval(xi)\<close>: allocate \<^verbatim>\<open>q\<close>, assign its row, return its address.\<close>

definition call_reval :: "closure \<Rightarrow> xi_arg \<Rightarrow> heap \<Rightarrow> (py_error + nat) \<times> heap" where
  "call_reval c xi h =
     (case xi of
        Scalar _ \<Rightarrow> (Inl TypeError, h)
      | Array xs \<Rightarrow>
          (let (q, h1) = alloc (NdArray [replicate (length xs) 0]) h;
               row = (case c of
                        Shock_closure q_l q_r shock_speed \<Rightarrow>
                          map (shock_elem q_l q_r shock_speed) xs
                      | Raref_closure q_l q_r c_l c_r \<Rightarrow>
                          map (raref_elem q_l q_r c_l c_r) xs)
           in (Inr q, assign_row0 q row h1)))"

text \<open>
  \<^verbatim>\<open>riemann_traffic_exact\<close> (second definition) allocating \<^verbatim>\<open>states\<close> and \<^verbatim>\<open>speeds\<close>.
\<close>

definition riemann_traffic_exact_h ::
  "real \<Rightarrow> real \<Rightarrow> heap \<Rightarrow> (py_error + nat \<times> nat \<times> closure) \<times> heap" where
  "riemann_traffic_exact_h q_l q_r h =
     (if q_r > q_l then
        (case py_div (f q_l - f q_r) (q_l - q_r) of
           Inl e \<Rightarrow> (Inl e, h)
         | Inr shock_speed \<Rightarrow>
             (let (states, h1) = alloc (NdArray [[q_l, q_r]]) h;
                  (speeds, h2) = alloc (PyList [Shock shock_speed]) h1
              in (Inr (states, speeds, Shock_closure q_l q_r shock_speed), h2)))
      else
        (let c_l = 1 - 2 * q_l; c_r = 1 - 2 * q_r;
             (states, h1) = alloc (NdArray [[q_l, q_r]]) h;
             (speeds, h2) = alloc (PyList [Rarefaction c_l c_r]) h1
         in (Inr (states, speeds, Raref_closure q_l q_r c_l c_r), h2)))"

text \<open>The array a call returned, read from the store the call left behind.\<close>

definition result_of :: "(py_error + nat) \<times> heap \<Rightarrow> py_error + real list list" where
  "result_of r =
     (case r of
        (Inl e, _) \<Rightarrow> Inl e
      | (Inr a, h) \<Rightarrow> (case h ! a of NdArray rows \<Rightarrow> Inr rows | PyList _ \<Rightarrow> Inl TypeError))"

text \<open>The function of the value model that a closure stands for.\<close>

definition closure_reval :: "closure \<Rightarrow> xi_arg \<Rightarrow> py_error + real list list" where
  "closure_reval c =
     (case c of
        Shock_closure q_l q_r shock_speed \<Rightarrow> shock_reval q_l q_r shock_speed
      | Raref_closure q_l q_r c_l c_r \<Rightarrow> raref_reval q_l q_r c_l c_r)"

subsection \<open>Double precision\<close>

text \<open>
  A finite double is modelled by its value: a real \<open>x\<close> with \<open>fl x = x\<close>. The two zeros
  \<^verbatim>\<open>0.0\<close> and \<^verbatim>\<open>-0.0\<close> are one value; they compare equal, and no operation of the source
  gives a different value for one than for the other. Rounding is to nearest, ties to
  even, with the subnormal range included. Infinities and NaN are not modelled: where a
  result has magnitude \<^verbatim>\<open>2**1024\<close> or more the value of \<open>fl\<close> has no meaning. Every value met
  in the statements below is between \<open>-1\<close> and \<open>1\<close>.
\<close>

text \<open>
  The exponent of the binade of \<open>x\<close>: the first \<open>e\<close> from \<open>-1022\<close> on with
  \<^verbatim>\<open>abs(x) < 2**(e+1)\<close>. Everything below \<^verbatim>\<open>2**-1022\<close> (zero and the subnormal range) has
  exponent \<open>-1022\<close>.
\<close>

definition binade :: "real \<Rightarrow> int" where
  "binade x =
     (case find (\<lambda>e. \<bar>x\<bar> < 2 powi (e + 1)) [- 1022 .. 1023] of
        Some e \<Rightarrow> e
      | None \<Rightarrow> 1024)"

text \<open>Rounding to the nearest integer, a tie going to the even one.\<close>

definition rne :: "real \<Rightarrow> int" where
  "rne x =
     (let n = \<lfloor>x\<rfloor>; r = x - of_int n
      in if r < 1 / 2 then n else if r > 1 / 2 then n + 1 else if even n then n else n + 1)"

text \<open>
  Rounding to the nearest double: a multiple of the quantum \<^verbatim>\<open>2**(e-52)\<close> of the binade
  with exponent \<open>e\<close>.
\<close>

definition fl :: "real \<Rightarrow> real" where
  "fl x = (let u = 2 powi (binade x - 52) in of_int (rne (x / u)) * u)"

text \<open>
  An operation on doubles returns the exact result, rounded. Division of Python floats
  raises on a zero divisor.
\<close>

definition fadd :: "real \<Rightarrow> real \<Rightarrow> real" where
  "fadd a b = fl (a + b)"

definition fsub :: "real \<Rightarrow> real \<Rightarrow> real" where
  "fsub a b = fl (a - b)"

definition fmul :: "real \<Rightarrow> real \<Rightarrow> real" where
  "fmul a b = fl (a * b)"

definition fdiv :: "real \<Rightarrow> real \<Rightarrow> py_error + real" where
  "fdiv a b = (if b = 0 then Inl ZeroDivisionError else Inr (fl (a / b)))"

text \<open>\<^verbatim>\<open>f = lambda q: q*(1-q)\<close> on doubles.\<close>

definition f_d :: "real \<Rightarrow> real" where
  "f_d q = fmul q (fsub 1 q)"

text \<open>
  The first definition on doubles. The \<^verbatim>\<open>reval\<close> of its shock branch only compares and
  returns \<open>q_l\<close> or \<open>q_r\<close>, so it is \<^const>\<open>shock_reval_scalar\<close> as it stands; the
  rarefaction branch computes \<^verbatim>\<open>(1.-xi)/2.\<close>, and \<^verbatim>\<open>c_l = 1-2*q_l\<close> is a product and a
  difference of doubles.
\<close>

definition raref_reval_scalar_d :: "real \<Rightarrow> real \<Rightarrow> real \<Rightarrow> real \<Rightarrow> real \<Rightarrow> real" where
  "raref_reval_scalar_d q_l q_r c_l c_r xi =
     (if xi < c_l then q_l else if xi > c_r then q_r else fl (fsub 1 xi / 2))"

definition riemann_traffic_exact_scalar_d :: "real \<Rightarrow> real \<Rightarrow> py_error + (real \<Rightarrow> real)" where
  "riemann_traffic_exact_scalar_d q_l q_r =
     (if q_r > q_l then
        (case fdiv (fsub (f_d q_l) (f_d q_r)) (fsub q_l q_r) of
           Inl e \<Rightarrow> Inl e
         | Inr shock_speed \<Rightarrow> Inr (shock_reval_scalar q_l q_r shock_speed))
      else
        (let c_l = fsub 1 (fmul 2 q_l); c_r = fsub 1 (fmul 2 q_r)
         in Inr (raref_reval_scalar_d q_l q_r c_l c_r)))"

text \<open>
  The second definition on doubles. A boolean entry times a float is the float product
  with 0 or 1; the product of two boolean arrays is boolean and needs no rounding.
\<close>

definition shock_elem_d :: "real \<Rightarrow> real \<Rightarrow> real \<Rightarrow> real \<Rightarrow> real" where
  "shock_elem_d q_l q_r shock_speed xi =
     fadd (fmul (of_bool (xi < shock_speed)) q_l) (fmul (of_bool (xi \<ge> shock_speed)) q_r)"

definition raref_elem_d :: "real \<Rightarrow> real \<Rightarrow> real \<Rightarrow> real \<Rightarrow> real \<Rightarrow> real" where
  "raref_elem_d q_l q_r c_l c_r xi =
     fadd (fadd (fmul (of_bool (xi \<le> c_l)) q_l) (fmul (of_bool (xi \<ge> c_r)) q_r))
          (fl (fmul (of_bool (c_l < xi) * of_bool (xi < c_r)) (fsub 1 xi) / 2))"

definition shock_reval_d :: "real \<Rightarrow> real \<Rightarrow> real \<Rightarrow> xi_arg \<Rightarrow> py_error + real list list" where
  "shock_reval_d q_l q_r shock_speed xi =
     (case xi of
        Scalar _ \<Rightarrow> Inl TypeError
      | Array xs \<Rightarrow>
          (let q = [replicate (length xs) 0]
           in Inr (q[0 := map (shock_elem_d q_l q_r shock_speed) xs])))"

definition raref_reval_d :: "real \<Rightarrow> real \<Rightarrow> real \<Rightarrow> real \<Rightarrow> xi_arg \<Rightarrow> py_error + real list list" where
  "raref_reval_d q_l q_r c_l c_r xi =
     (case xi of
        Scalar _ \<Rightarrow> Inl TypeError
      | Array xs \<Rightarrow>
          (let q = [replicate (length xs) 0]
           in Inr (q[0 := map (raref_elem_d q_l q_r c_l c_r) xs])))"

definition riemann_traffic_exact_d :: "real \<Rightarrow> real \<Rightarrow> py_error + solution" where
  "riemann_traffic_exact_d q_l q_r =
     (if q_r > q_l then
        (case fdiv (fsub (f_d q_l) (f_d q_r)) (fsub q_l q_r) of
           Inl e \<Rightarrow> Inl e
         | Inr shock_speed \<Rightarrow>
             Inr ([[q_l, q_r]], [Shock shock_speed], shock_reval_d q_l q_r shock_speed))
      else
        (let c_l = fsub 1 (fmul 2 q_l); c_r = fsub 1 (fmul 2 q_r)
         in Inr ([[q_l, q_r]], [Rarefaction c_l c_r], raref_reval_d q_l q_r c_l c_r)))"

section \<open>Basic facts\<close>

lemma py_div_nonzero: "b \<noteq> 0 \<Longrightarrow> py_div a b = Inr (a / b)"
  by (simp add: py_div_def)

lemma shock_branch:
  "q_l < q_r \<Longrightarrow> riemann_traffic_exact q_l q_r =
     Inr ([[q_l, q_r]], [Shock ((f q_l - f q_r) / (q_l - q_r))],
          shock_reval q_l q_r ((f q_l - f q_r) / (q_l - q_r)))"
  by (simp add: riemann_traffic_exact_def py_div_nonzero)

lemma raref_branch:
  "\<not> q_l < q_r \<Longrightarrow> riemann_traffic_exact q_l q_r =
     Inr ([[q_l, q_r]], [Rarefaction (1 - 2 * q_l) (1 - 2 * q_r)],
          raref_reval q_l q_r (1 - 2 * q_l) (1 - 2 * q_r))"
  by (simp add: riemann_traffic_exact_def Let_def)

lemma shock_reval_Array:
  "shock_reval q_l q_r s (Array xs) = Inr [map (shock_elem q_l q_r s) xs]"
  by (simp add: shock_reval_def)

lemma raref_reval_Array:
  "raref_reval q_l q_r c_l c_r (Array xs) = Inr [map (raref_elem q_l q_r c_l c_r) xs]"
  by (simp add: raref_reval_def)

lemma shock_speed_closed_form:
  "q_l \<noteq> q_r \<Longrightarrow> (f q_l - f q_r) / (q_l - q_r) = 1 - q_l - q_r"
proof -
  assume ne: "q_l \<noteq> q_r"
  have "f q_l - f q_r = (1 - q_l - q_r) * (q_l - q_r)"
    by (simp add: f_def algebra_simps)
  with ne show ?thesis by simp
qed

lemma shock_elem_left: "x < s \<Longrightarrow> shock_elem q_l q_r s x = q_l"
  by (simp add: shock_elem_def)

lemma shock_elem_right: "s \<le> x \<Longrightarrow> shock_elem q_l q_r s x = q_r"
  by (simp add: shock_elem_def)

lemma raref_elem_left: "x < c_l \<Longrightarrow> x < c_r \<Longrightarrow> raref_elem q_l q_r c_l c_r x = q_l"
  by (simp add: raref_elem_def)

lemma raref_elem_right: "c_l < x \<Longrightarrow> c_r < x \<Longrightarrow> raref_elem q_l q_r c_l c_r x = q_r"
  by (simp add: raref_elem_def)

lemma raref_elem_inside: "c_l < x \<Longrightarrow> x < c_r \<Longrightarrow> raref_elem q_l q_r c_l c_r x = (1 - x) / 2"
  by (simp add: raref_elem_def)

lemma raref_elem_left_edge: "c_l < c_r \<Longrightarrow> raref_elem q_l q_r c_l c_r c_l = q_l"
  by (simp add: raref_elem_def)

lemma raref_elem_right_edge: "c_l < c_r \<Longrightarrow> raref_elem q_l q_r c_l c_r c_r = q_r"
  by (simp add: raref_elem_def)

text \<open>
  When the two ends of the fan coincide, the masks \<^verbatim>\<open>xi<=c_l\<close> and \<^verbatim>\<open>xi>=c_r\<close> are both 1
  at that point and both outer states are added.
\<close>

lemma raref_elem_collapsed: "raref_elem q_l q_r c c c = q_l + q_r"
  by (simp add: raref_elem_def)

lemma raref_elem_equal_states: "raref_elem q q c c x = (if x = c then 2 * q else q)"
  by (simp add: raref_elem_def)

lemma shock_elem_scalar: "shock_elem q_l q_r s = shock_reval_scalar q_l q_r s"
  by (rule ext) (simp add: shock_elem_def shock_reval_scalar_def)

lemma raref_elem_scalar:
  assumes "q_r < q_l"
  shows "raref_elem q_l q_r (1 - 2 * q_l) (1 - 2 * q_r) =
         raref_reval_scalar q_l q_r (1 - 2 * q_l) (1 - 2 * q_r)"
proof (rule ext)
  fix x :: real
  from assms have lt: "1 - 2 * q_l < 1 - 2 * q_r" by simp
  consider "x < 1 - 2 * q_l" | "x = 1 - 2 * q_l" | "1 - 2 * q_l < x" "x < 1 - 2 * q_r"
    | "x = 1 - 2 * q_r" | "1 - 2 * q_r < x"
    by linarith
  then show "raref_elem q_l q_r (1 - 2 * q_l) (1 - 2 * q_r) x =
             raref_reval_scalar q_l q_r (1 - 2 * q_l) (1 - 2 * q_r) x"
  proof cases
    case 1
    with lt show ?thesis by (simp add: raref_elem_left raref_reval_scalar_def)
  next
    case 2
    with lt show ?thesis by (simp add: raref_elem_left_edge raref_reval_scalar_def)
  next
    case 3
    then show ?thesis by (simp add: raref_elem_inside raref_reval_scalar_def)
  next
    case 4
    with lt show ?thesis by (simp add: raref_elem_right_edge raref_reval_scalar_def)
  next
    case 5
    with lt show ?thesis by (simp add: raref_elem_right raref_reval_scalar_def)
  qed
qed

lemma scalar_shock_branch:
  "q_l < q_r \<Longrightarrow> riemann_traffic_exact_scalar q_l q_r =
     Inr (shock_reval_scalar q_l q_r ((f q_l - f q_r) / (q_l - q_r)))"
  by (simp add: riemann_traffic_exact_scalar_def py_div_nonzero)

lemma scalar_raref_branch:
  "\<not> q_l < q_r \<Longrightarrow> riemann_traffic_exact_scalar q_l q_r =
     Inr (raref_reval_scalar q_l q_r (1 - 2 * q_l) (1 - 2 * q_r))"
  by (simp add: riemann_traffic_exact_scalar_def Let_def)

subsection \<open>The store model\<close>

lemma call_reval_Scalar: "call_reval c (Scalar x) h = (Inl TypeError, h)"
  by (simp add: call_reval_def)

lemma call_reval_Array:
  "call_reval c (Array xs) h =
     (Inr (length h),
      h @ [NdArray [case c of
                      Shock_closure q_l q_r s \<Rightarrow> map (shock_elem q_l q_r s) xs
                    | Raref_closure q_l q_r c_l c_r \<Rightarrow> map (raref_elem q_l q_r c_l c_r) xs]])"
  by (simp add: call_reval_def alloc_def assign_row0_def)

lemma call_reval_frame:
  assumes "call_reval c xi h = (r, h')"
  shows "length h \<le> length h' \<and> (\<forall>a < length h. h' ! a = h ! a)"
proof (cases xi)
  case (Scalar x)
  with assms show ?thesis by (simp add: call_reval_Scalar)
next
  case (Array xs)
  with assms show ?thesis by (auto simp add: call_reval_Array nth_append)
qed

lemma call_reval_result: "result_of (call_reval c xi h) = closure_reval c xi"
proof (cases xi)
  case (Scalar x)
  then show ?thesis
    by (cases c) (simp_all add: call_reval_Scalar result_of_def closure_reval_def
        shock_reval_def raref_reval_def)
next
  case (Array xs)
  then show ?thesis
    by (cases c) (simp_all add: call_reval_Array result_of_def closure_reval_def
        shock_reval_Array raref_reval_Array)
qed

lemma result_of_frame:
  assumes "call_reval c xi h = (r, h')" and "call_reval c' xi' h' = (r', h'')"
  shows "result_of (r, h'') = result_of (r, h')"
proof (cases xi)
  case (Scalar x)
  with assms(1) show ?thesis by (auto simp add: call_reval_Scalar result_of_def)
next
  case (Array xs)
  with assms(1) have r: "r = Inr (length h)" and len: "length h < length h'"
    by (auto simp add: call_reval_Array)
  from call_reval_frame [OF assms(2)] len have "h'' ! length h = h' ! length h"
    by simp
  with r show ?thesis by (simp add: result_of_def)
qed

lemma riemann_traffic_exact_h_shock:
  "q_l < q_r \<Longrightarrow> riemann_traffic_exact_h q_l q_r h =
     (Inr (length h, Suc (length h),
           Shock_closure q_l q_r ((f q_l - f q_r) / (q_l - q_r))),
      h @ [NdArray [[q_l, q_r]], PyList [Shock ((f q_l - f q_r) / (q_l - q_r))]])"
  by (simp add: riemann_traffic_exact_h_def py_div_nonzero alloc_def)

lemma riemann_traffic_exact_h_raref:
  "\<not> q_l < q_r \<Longrightarrow> riemann_traffic_exact_h q_l q_r h =
     (Inr (length h, Suc (length h),
           Raref_closure q_l q_r (1 - 2 * q_l) (1 - 2 * q_r)),
      h @ [NdArray [[q_l, q_r]], PyList [Rarefaction (1 - 2 * q_l) (1 - 2 * q_r)]])"
  by (simp add: riemann_traffic_exact_h_def Let_def alloc_def)

text \<open>The store model computes what the value model computes.\<close>

lemma riemann_traffic_exact_h_refines:
  "\<exists>states speeds c h'.
     riemann_traffic_exact_h q_l q_r h = (Inr (states, speeds, c), h') \<and>
     states < length h' \<and> speeds < length h' \<and> length h \<le> states \<and> length h \<le> speeds \<and>
     (\<forall>a < length h. h' ! a = h ! a) \<and>
     (\<exists>rows ws. h' ! states = NdArray rows \<and> h' ! speeds = PyList ws \<and>
        riemann_traffic_exact q_l q_r = Inr (rows, ws, closure_reval c))"
proof (cases "q_l < q_r")
  case True
  show ?thesis
    by (simp add: riemann_traffic_exact_h_shock [OF True] shock_branch [OF True]
        closure_reval_def nth_append)
next
  case False
  show ?thesis
    by (simp add: riemann_traffic_exact_h_raref [OF False] raref_branch [OF False]
        closure_reval_def nth_append)
qed


subsection \<open>Rounding at given values\<close>

text \<open>
  \<^const>\<open>binade\<close> searches a list; once the binade of \<open>x\<close> is known, \<open>fl x\<close> is a matter of
  arithmetic.
\<close>

lemma find_upto_first:
  fixes e :: int
  assumes "i \<le> e" "e \<le> j" "P e" "\<And>k. i \<le> k \<Longrightarrow> k < e \<Longrightarrow> \<not> P k"
  shows "find P [i..j] = Some e"
  using assms
proof (induction "nat (e - i)" arbitrary: i)
  case 0
  then have "i = e" by simp
  with 0 show ?case by (simp add: upto_rec1)
next
  case (Suc n)
  then have lt: "i < e" by linarith
  with Suc.prems have np: "\<not> P i" by simp
  from lt Suc.prems have ij: "i \<le> j" by simp
  have "find P [i + 1..j] = Some e"
  proof (rule Suc.hyps(1))
    show "n = nat (e - (i + 1))" using Suc.hyps(2) by linarith
    show "i + 1 \<le> e" using lt by simp
    show "e \<le> j" by fact
    show "P e" by fact
    show "\<not> P k" if "i + 1 \<le> k" "k < e" for k
      using that Suc.prems(4) [of k] by simp
  qed
  with np ij show ?case by (simp add: upto_rec1)
qed

lemma binade_eq:
  assumes "- 1022 \<le> e" "e \<le> 1023" "\<bar>x\<bar> < 2 powi (e + 1)"
    and "e = - 1022 \<or> 2 powi e \<le> \<bar>x\<bar>"
  shows "binade x = e"
proof -
  have "find (\<lambda>e. \<bar>x\<bar> < 2 powi (e + 1)) [- 1022 .. 1023] = Some e"
  proof (rule find_upto_first)
    show "- 1022 \<le> e" "e \<le> 1023" "\<bar>x\<bar> < 2 powi (e + 1)" by fact+
    show "\<not> \<bar>x\<bar> < 2 powi (k + 1)" if "- 1022 \<le> k" "k < e" for k
    proof -
      from that assms(4) have le: "2 powi e \<le> \<bar>x\<bar>" by auto
      from that have "k + 1 \<le> e" by simp
      then have "(2 :: real) powi (k + 1) \<le> 2 powi e"
        by (intro power_int_increasing) simp_all
      with le show ?thesis by simp
    qed
  qed
  then show ?thesis by (simp add: binade_def)
qed

lemma fl_eval:
  assumes "- 1022 \<le> e" "e \<le> 1023" "\<bar>x\<bar> < 2 powi (e + 1)"
    and "e = - 1022 \<or> 2 powi e \<le> \<bar>x\<bar>"
  shows "fl x = of_int (rne (x / 2 powi (e - 52))) * 2 powi (e - 52)"
  using binade_eq [OF assms] by (simp add: fl_def Let_def)

lemma fl_zero: "fl 0 = 0"
  by (subst fl_eval [where e = "- 1022"]) (simp_all add: rne_def Let_def)

lemma fl_one: "fl 1 = 1"
  by (subst fl_eval [where e = 0]) (simp_all add: rne_def Let_def power_int_minus)

lemma fl_half: "fl (1 / 2) = 1 / 2"
  by (subst fl_eval [where e = "- 1"]) (simp_all add: rne_def Let_def power_int_minus)

lemma fl_quarter: "fl (1 / 4) = 1 / 4"
  by (subst fl_eval [where e = "- 2"]) (simp_all add: rne_def Let_def power_int_minus)

text \<open>
  The literals \<^verbatim>\<open>0.1\<close>, \<^verbatim>\<open>0.2\<close> and \<^verbatim>\<open>0.3\<close>: the sum of the first two is not the third,
  as in Python.
\<close>

lemma fl_tenth: "fl (1 / 10) = 3602879701896397 / 36028797018963968"
  by (subst fl_eval [where e = "- 4"]) (simp_all add: rne_def Let_def power_int_minus)

lemma fl_sum: "fl (10808639105689191 / 36028797018963968) = 1351079888211149 / 4503599627370496"
  by (subst fl_eval [where e = "- 2"]) (simp_all add: rne_def Let_def power_int_minus)

lemma tenth_plus_fifth:
  "fadd (fl (1 / 10)) (fl (1 / 5)) = 1351079888211149 / 4503599627370496 \<and>
   fl (3 / 10) = 5404319552844595 / 18014398509481984"
proof -
  have a: "fl (1 / 5) = 3602879701896397 / 18014398509481984"
    by (subst fl_eval [where e = "- 3"]) (simp_all add: rne_def Let_def power_int_minus)
  have b: "fl (3 / 10) = 5404319552844595 / 18014398509481984"
    by (subst fl_eval [where e = "- 2"]) (simp_all add: rne_def Let_def power_int_minus)
  show ?thesis by (simp add: fadd_def fl_tenth a b fl_sum)
qed

text \<open>The roundings met for \<open>q_l = 1/2\<close> and \<open>q_r\<close> the next double above \<open>1/2\<close>.\<close>

lemma fl_half_next: "fl (4503599627370497 / 9007199254740992) = 4503599627370497 / 9007199254740992"
  by (subst fl_eval [where e = "- 1"]) (simp_all add: rne_def Let_def power_int_minus)

lemma fl_half_prev: "fl (4503599627370495 / 9007199254740992) = 4503599627370495 / 9007199254740992"
  by (subst fl_eval [where e = "- 2"]) (simp_all add: rne_def Let_def power_int_minus)

lemma fl_flux_half_next:
  "fl (20282409603651670423947251286015 / 81129638414606681695789005144064) = 1 / 4"
  by (subst fl_eval [where e = "- 3"]) (simp_all add: rne_def Let_def power_int_minus)

lemma fl_ulp_half: "fl (- (1 / 9007199254740992)) = - (1 / 9007199254740992)"
  by (subst fl_eval [where e = "- 53"]) (simp_all add: rne_def Let_def power_int_minus)

text \<open>The roundings met for \<open>q_l = 0.1\<close>, \<open>q_r = 0\<close>, \<open>\<xi> = 0.8\<close>.\<close>

lemma fl_four_fifths: "fl (4 / 5) = 3602879701896397 / 4503599627370496"
  by (subst fl_eval [where e = "- 1"]) (simp_all add: rne_def Let_def power_int_minus)

lemma fl_double_tenth: "fl (3602879701896397 / 18014398509481984) = 3602879701896397 / 18014398509481984"
  by (subst fl_eval [where e = "- 3"]) (simp_all add: rne_def Let_def power_int_minus)

lemma fl_one_minus_fifth: "fl (14411518807585587 / 18014398509481984) = 3602879701896397 / 4503599627370496"
  by (subst fl_eval [where e = "- 1"]) (simp_all add: rne_def Let_def power_int_minus)

lemma fl_one_minus_four_fifths: "fl (900719925474099 / 4503599627370496) = 900719925474099 / 4503599627370496"
  by (subst fl_eval [where e = "- 3"]) (simp_all add: rne_def Let_def power_int_minus)

lemma fl_half_of_that: "fl (900719925474099 / 9007199254740992) = 900719925474099 / 9007199254740992"
  by (subst fl_eval [where e = "- 4"]) (simp_all add: rne_def Let_def power_int_minus)

lemma fl_tenth_double: "fl (3602879701896397 / 36028797018963968) = 3602879701896397 / 36028797018963968"
  by (subst fl_eval [where e = "- 4"]) (simp_all add: rne_def Let_def power_int_minus)

section \<open>Classification of the wave\<close>

text \<open>
  Claim C1. For all densities \<open>q_l\<close>, \<open>q_r\<close> the solver classifies the wave by comparing
  \<open>f'(q_l) = 1 - 2 q_l\<close> with \<open>f'(q_r) = 1 - 2 q_r\<close>, which is the source's test
  \<open>q_r > q_l\<close>: if \<open>f'(q_l) > f'(q_r)\<close> it returns one shock whose speed is
  \<open>(f(q_l) - f(q_r)) / (q_l - q_r)\<close>, otherwise one rarefaction whose speed interval is
  \<open>[1 - 2 q_l, 1 - 2 q_r]\<close>. It never fails: the divisor is nonzero in the shock branch.
  The restriction to \<open>[0,1]\<close> is not needed.
\<close>

theorem riemann_traffic_exact_classifies:
  fixes q_l q_r :: real
  shows "(1 - 2 * q_l > 1 - 2 * q_r \<longleftrightarrow> q_r > q_l) \<and>
   (\<exists>reval.
      riemann_traffic_exact q_l q_r =
        Inr ([[q_l, q_r]],
             (if 1 - 2 * q_l > 1 - 2 * q_r
              then [Shock ((f q_l - f q_r) / (q_l - q_r))]
              else [Rarefaction (1 - 2 * q_l) (1 - 2 * q_r)]),
             reval))"
proof (cases "q_l < q_r")
  case True
  then show ?thesis using shock_branch [OF True] by simp
next
  case False
  then show ?thesis using raref_branch [OF False] by simp
qed

theorem riemann_traffic_exact_classifies_witness:
  "(\<exists>reval. riemann_traffic_exact (1 / 5) 1 = Inr ([[1 / 5, 1]], [Shock (- 1 / 5)], reval)) \<and>
   (\<exists>reval. riemann_traffic_exact 1 0 = Inr ([[1, 0]], [Rarefaction (- 1) 1], reval))"
  using riemann_traffic_exact_classifies [where q_l = "1 / 5" and q_r = 1]
    riemann_traffic_exact_classifies [where q_l = 1 and q_r = 0]
  by (simp add: f_def)

section \<open>Equal states\<close>

text \<open>
  Claim C2. For \<open>q_l = q_r\<close> the solution should be the constant \<open>q_l\<close> at every \<open>\<xi>\<close>,
  also at \<open>\<xi> = 1 - 2 q_l\<close>. The array \<^verbatim>\<open>reval\<close> does not do that: for
  \<open>q_l = q_r = 1/2\<close> the fan is \<open>[0, 0]\<close>, and at \<open>\<xi> = 0\<close> it returns \<open>1\<close>, the sum of
  both states, where the scalar \<^verbatim>\<open>reval\<close> of the first definition returns \<open>1/2\<close>.
\<close>

theorem equal_states_value_at_fan:
  "riemann_traffic_exact (1 / 2) (1 / 2) =
     Inr ([[1 / 2, 1 / 2]], [Rarefaction 0 0], raref_reval (1 / 2) (1 / 2) 0 0) \<and>
   raref_reval (1 / 2) (1 / 2) 0 0 (Array [- 1, 0, 1]) = Inr [[1 / 2, 1, 1 / 2]] \<and>
   riemann_traffic_exact_scalar (1 / 2) (1 / 2) = Inr (raref_reval_scalar (1 / 2) (1 / 2) 0 0) \<and>
   map (raref_reval_scalar (1 / 2) (1 / 2) 0 0) [- 1, 0, 1] = [1 / 2, 1 / 2, 1 / 2]"
  by (simp add: riemann_traffic_exact_def riemann_traffic_exact_scalar_def
      raref_reval_def raref_elem_def raref_reval_scalar_def)

section \<open>Profile inside the rarefaction fan\<close>

text \<open>
  Claim C3. In the rarefaction case \<open>q_r \<le> q_l\<close>, at every entry \<open>\<xi>\<close> of the argument
  that lies strictly between \<open>c_l = 1 - 2 q_l\<close> and \<open>c_r = 1 - 2 q_r\<close> the returned
  \<^verbatim>\<open>reval\<close> gives exactly \<open>(1 - \<xi>) / 2\<close>. For the green light \<open>q_l = 1\<close>, \<open>q_r = 0\<close> the
  solution is one rarefaction spanning \<open>[-1, 1]\<close> and the value at \<open>\<xi> = 0\<close> is \<open>1/2\<close>.
  The scalar \<^verbatim>\<open>reval\<close> of the first definition gives the same values.
\<close>

theorem rarefaction_profile:
  "(\<forall>q_l q_r :: real. q_r \<le> q_l \<longrightarrow>
      (\<exists>states reval reval1.
         riemann_traffic_exact q_l q_r =
           Inr (states, [Rarefaction (1 - 2 * q_l) (1 - 2 * q_r)], reval) \<and>
         (\<forall>xs. \<exists>row. reval (Array xs) = Inr [row] \<and> length row = length xs \<and>
            (\<forall>i < length xs. 1 - 2 * q_l < xs ! i \<and> xs ! i < 1 - 2 * q_r \<longrightarrow>
               row ! i = (1 - xs ! i) / 2)) \<and>
         riemann_traffic_exact_scalar q_l q_r = Inr reval1 \<and>
         (\<forall>xi. 1 - 2 * q_l < xi \<and> xi < 1 - 2 * q_r \<longrightarrow> reval1 xi = (1 - xi) / 2))) \<and>
   (\<exists>states reval reval1.
      riemann_traffic_exact 1 0 = Inr (states, [Rarefaction (- 1) 1], reval) \<and>
      reval (Array [0]) = Inr [[1 / 2]] \<and>
      riemann_traffic_exact_scalar 1 0 = Inr reval1 \<and> reval1 0 = 1 / 2)"
proof -
  have gen: "\<exists>states reval reval1.
         riemann_traffic_exact q_l q_r =
           Inr (states, [Rarefaction (1 - 2 * q_l) (1 - 2 * q_r)], reval) \<and>
         (\<forall>xs. \<exists>row. reval (Array xs) = Inr [row] \<and> length row = length xs \<and>
            (\<forall>i < length xs. 1 - 2 * q_l < xs ! i \<and> xs ! i < 1 - 2 * q_r \<longrightarrow>
               row ! i = (1 - xs ! i) / 2)) \<and>
         riemann_traffic_exact_scalar q_l q_r = Inr reval1 \<and>
         (\<forall>xi. 1 - 2 * q_l < xi \<and> xi < 1 - 2 * q_r \<longrightarrow> reval1 xi = (1 - xi) / 2)"
    if "q_r \<le> q_l" for q_l q_r :: real
  proof -
    from that have nl: "\<not> q_l < q_r" by simp
    show ?thesis
      by (simp add: raref_branch [OF nl] scalar_raref_branch [OF nl] raref_reval_Array
          raref_elem_inside raref_reval_scalar_def)
  qed
  have green: "\<exists>states reval reval1.
      riemann_traffic_exact 1 0 = Inr (states, [Rarefaction (- 1) 1], reval) \<and>
      reval (Array [0]) = Inr [[1 / 2]] \<and>
      riemann_traffic_exact_scalar 1 0 = Inr reval1 \<and> reval1 0 = 1 / 2"
    by (simp add: riemann_traffic_exact_def riemann_traffic_exact_scalar_def Let_def
        raref_reval_def raref_elem_def raref_reval_scalar_def)
  from gen green show ?thesis by blast
qed

theorem rarefaction_profile_witness:
  "(3 / 10 :: real) \<le> 9 / 10 \<and>
   (\<exists>states reval reval1.
      riemann_traffic_exact (9 / 10) (3 / 10) =
        Inr (states, [Rarefaction (- 4 / 5) (2 / 5)], reval) \<and>
      (\<exists>row. reval (Array [- 1 / 5]) = Inr [row] \<and> row ! 0 = 3 / 5) \<and>
      riemann_traffic_exact_scalar (9 / 10) (3 / 10) = Inr reval1 \<and> reval1 (- 1 / 5) = 3 / 5)"
proof -
  have le: "(3 / 10 :: real) \<le> 9 / 10" by simp
  from rarefaction_profile have
    "\<exists>states reval reval1.
       riemann_traffic_exact (9 / 10) (3 / 10) =
         Inr (states, [Rarefaction (1 - 2 * (9 / 10)) (1 - 2 * (3 / 10))], reval) \<and>
       (\<forall>xs. \<exists>row. reval (Array xs) = Inr [row] \<and> length row = length xs \<and>
          (\<forall>i < length xs. 1 - 2 * (9 / 10) < xs ! i \<and> xs ! i < 1 - 2 * (3 / 10) \<longrightarrow>
             row ! i = (1 - xs ! i) / 2)) \<and>
       riemann_traffic_exact_scalar (9 / 10) (3 / 10) = Inr reval1 \<and>
       (\<forall>xi. 1 - 2 * (9 / 10) < xi \<and> xi < 1 - 2 * (3 / 10) \<longrightarrow> reval1 xi = (1 - xi) / 2)"
    using le by blast
  then obtain states reval reval1 where
    sol: "riemann_traffic_exact (9 / 10) (3 / 10) =
         Inr (states, [Rarefaction (1 - 2 * (9 / 10)) (1 - 2 * (3 / 10))], reval)"
    and ev: "\<forall>xs. \<exists>row. reval (Array xs) = Inr [row] \<and> length row = length xs \<and>
          (\<forall>i < length xs. 1 - 2 * (9 / 10) < xs ! i \<and> xs ! i < 1 - 2 * (3 / 10) \<longrightarrow>
             row ! i = (1 - xs ! i) / 2)"
    and sc: "riemann_traffic_exact_scalar (9 / 10) (3 / 10) = Inr reval1"
    and ev1: "\<forall>xi. 1 - 2 * (9 / 10) < xi \<and> xi < 1 - 2 * (3 / 10) \<longrightarrow> reval1 xi = (1 - xi) / 2"
    by blast
  from ev obtain row where
    row: "reval (Array [- 1 / 5]) = Inr [row]"
    and at: "\<forall>i < length [- 1 / 5 :: real].
          1 - 2 * (9 / 10) < [- 1 / 5 :: real] ! i \<and> [- 1 / 5 :: real] ! i < 1 - 2 * (3 / 10) \<longrightarrow>
             row ! i = (1 - [- 1 / 5 :: real] ! i) / 2"
    by blast
  from at have r0: "row ! 0 = 3 / 5" by simp
  from ev1 [rule_format, of "- 1 / 5"] have "reval1 (- 1 / 5) = 3 / 5" by simp
  with r0 sol sc row le show ?thesis by simp
qed

section \<open>Outer states\<close>

text \<open>
  Claim C4. For all \<open>q_l\<close>, \<open>q_r\<close>: at every entry \<open>\<xi>\<close> of the argument strictly below the
  smallest wave speed of the returned solution \<^verbatim>\<open>reval\<close> gives exactly \<open>q_l\<close>, and at
  every entry strictly above the largest wave speed exactly \<open>q_r\<close>. The restriction to
  \<open>[0,1]\<close> is not needed.
\<close>

theorem outer_states_exact:
  fixes q_l q_r :: real
  shows "\<exists>states speeds reval.
           riemann_traffic_exact q_l q_r = Inr (states, speeds, reval) \<and> speeds \<noteq> [] \<and>
           smallest_speed speeds \<le> largest_speed speeds \<and>
           (\<forall>xs. \<exists>row. reval (Array xs) = Inr [row] \<and> length row = length xs \<and>
              (\<forall>i < length xs.
                 (xs ! i < smallest_speed speeds \<longrightarrow> row ! i = q_l) \<and>
                 (xs ! i > largest_speed speeds \<longrightarrow> row ! i = q_r)))"
proof (cases "q_l < q_r")
  case True
  show ?thesis
    by (simp add: shock_branch [OF True] shock_reval_Array smallest_speed_def
        largest_speed_def shock_elem_left shock_elem_right)
next
  case False
  show ?thesis
    by (simp add: raref_branch [OF False] raref_reval_Array smallest_speed_def
        largest_speed_def raref_elem_left raref_elem_right)
qed

theorem outer_states_exact_witness:
  "\<exists>states reval.
     riemann_traffic_exact 1 0 = Inr (states, [Rarefaction (- 1) 1], reval) \<and>
     smallest_speed [Rarefaction (- 1) 1] = - 1 \<and> largest_speed [Rarefaction (- 1) 1] = 1 \<and>
     (- 2 :: real) < - 1 \<and> (2 :: real) > 1 \<and>
     reval (Array [- 2, 2]) = Inr [[1, 0]]"
proof -
  from outer_states_exact [where q_l = 1 and q_r = 0] obtain states speeds reval where
    sol: "riemann_traffic_exact 1 0 = Inr (states, speeds, reval)"
    and ev: "\<forall>xs. \<exists>row. reval (Array xs) = Inr [row] \<and> length row = length xs \<and>
              (\<forall>i < length xs.
                 (xs ! i < smallest_speed speeds \<longrightarrow> row ! i = 1) \<and>
                 (xs ! i > largest_speed speeds \<longrightarrow> row ! i = 0))"
    by blast
  from sol have sp: "speeds = [Rarefaction (- 1) 1]"
    by (simp add: riemann_traffic_exact_def Let_def)
  have lo: "smallest_speed [Rarefaction (- 1) 1] = - 1"
    and hi: "largest_speed [Rarefaction (- 1) 1] = 1"
    by (simp_all add: smallest_speed_def largest_speed_def)
  from ev obtain row where row: "reval (Array [- 2, 2]) = Inr [row]"
    and len: "length row = length [- 2, 2 :: real]"
    and at: "\<forall>i < length [- 2, 2 :: real].
                 ([- 2, 2 :: real] ! i < smallest_speed speeds \<longrightarrow> row ! i = 1) \<and>
                 ([- 2, 2 :: real] ! i > largest_speed speeds \<longrightarrow> row ! i = 0)"
    by blast
  from at [rule_format, of 0] at [rule_format, of 1] have "row ! 0 = 1" "row ! 1 = 0"
    by (simp_all add: sp lo hi)
  with len have "row = [1, 0]"
    by (cases row; cases "tl row") auto
  with sol sp row lo hi show ?thesis by simp
qed

section \<open>The value at the shock\<close>

text \<open>
  Claim C5. Whenever a shock is returned (\<open>q_r > q_l\<close>), \<^verbatim>\<open>reval\<close> is right-continuous at
  the shock: at \<open>\<xi>\<close> equal to the shock speed the value is the right state \<open>q_r\<close>. This
  holds for the array \<^verbatim>\<open>reval\<close> of the second definition and for the scalar \<^verbatim>\<open>reval\<close> of
  the first.
\<close>

theorem shock_right_continuous:
  fixes q_l q_r :: real
  assumes "q_l < q_r"
  shows "\<exists>states s reval reval1.
           riemann_traffic_exact q_l q_r = Inr (states, [Shock s], reval) \<and>
           (\<forall>xs. \<exists>row. reval (Array xs) = Inr [row] \<and> length row = length xs \<and>
              (\<forall>i < length xs. xs ! i = s \<longrightarrow> row ! i = q_r)) \<and>
           riemann_traffic_exact_scalar q_l q_r = Inr reval1 \<and> reval1 s = q_r"
  by (simp add: shock_branch [OF assms] scalar_shock_branch [OF assms] shock_reval_Array
      shock_elem_right shock_reval_scalar_def)

theorem shock_right_continuous_witness:
  "(1 / 5 :: real) < 1 \<and>
   (\<exists>states reval reval1.
      riemann_traffic_exact (1 / 5) 1 = Inr (states, [Shock (- 1 / 5)], reval) \<and>
      reval (Array [- 1 / 5]) = Inr [[1]] \<and>
      riemann_traffic_exact_scalar (1 / 5) 1 = Inr reval1 \<and> reval1 (- 1 / 5) = 1)"
proof -
  have lt: "(1 / 5 :: real) < 1" by simp
  from shock_right_continuous [OF lt] obtain states s reval reval1 where
    sol: "riemann_traffic_exact (1 / 5) 1 = Inr (states, [Shock s], reval)"
    and ev: "\<forall>xs. \<exists>row. reval (Array xs) = Inr [row] \<and> length row = length xs \<and>
              (\<forall>i < length xs. xs ! i = s \<longrightarrow> row ! i = 1)"
    and sc: "riemann_traffic_exact_scalar (1 / 5) 1 = Inr reval1" "reval1 s = 1"
    by blast
  from sol have s: "s = - 1 / 5"
    by (simp add: shock_branch [OF lt] f_def)
  from ev obtain row where row: "reval (Array [s]) = Inr [row]" "length row = length [s]"
    "\<forall>i < length [s]. [s] ! i = s \<longrightarrow> row ! i = 1"
    by blast
  then have "row = [1]"
    by (cases row) simp_all
  with row sol sc s lt show ?thesis by auto
qed

section \<open>Entropy condition\<close>

text \<open>
  Claim C6, as amended. In exact arithmetic every shock the solver returns satisfies the
  entropy condition strictly: it is returned only for \<open>q_r > q_l\<close>, its speed \<open>s\<close> is
  \<open>(f(q_l) - f(q_r)) / (q_l - q_r)\<close>, and \<open>1 - 2 q_l > s > 1 - 2 q_r\<close>.
\<close>

theorem shock_entropy_condition:
  fixes q_l q_r s :: real
  assumes "riemann_traffic_exact q_l q_r = Inr (states, speeds, reval)"
      and "Shock s \<in> set speeds"
  shows "q_l < q_r \<and> s = (f q_l - f q_r) / (q_l - q_r) \<and> 1 - 2 * q_l > s \<and> s > 1 - 2 * q_r"
proof (cases "q_l < q_r")
  case True
  with assms have s: "s = (f q_l - f q_r) / (q_l - q_r)"
    by (auto simp add: shock_branch)
  from True have "s = 1 - q_l - q_r"
    unfolding s by (simp add: shock_speed_closed_form)
  with True s show ?thesis by simp
next
  case False
  with assms show ?thesis by (auto simp add: raref_branch)
qed

theorem shock_entropy_condition_witness:
  "riemann_traffic_exact (1 / 5) 1 =
     Inr ([[1 / 5, 1]], [Shock (- 1 / 5)], shock_reval (1 / 5) 1 (- 1 / 5)) \<and>
   Shock (- 1 / 5) \<in> set [Shock (- 1 / 5)] \<and>
   (1 - 2 * (1 / 5) > (- 1 / 5 :: real)) \<and> (- 1 / 5 :: real) > 1 - 2 * 1"
proof -
  have r: "riemann_traffic_exact (1 / 5) 1 =
      Inr ([[1 / 5, 1]], [Shock (- 1 / 5)], shock_reval (1 / 5) 1 (- 1 / 5))"
    by (simp add: riemann_traffic_exact_def py_div_def f_def)
  have m: "Shock (- 1 / 5) \<in> set [Shock (- 1 / 5)]" by simp
  from shock_entropy_condition [OF r m] r m show ?thesis by simp
qed

text \<open>
  The claim as first stated is about the shocks the code returns, and the code computes
  in doubles. For \<open>q_l = 1/2\<close> and \<open>q_r\<close> the next double above it, \<^verbatim>\<open>0.5 + 2**-53\<close>, both
  in \<open>[0,1]\<close>, the two fluxes round to \<open>1/4\<close>, their difference is \<open>0\<close> and the shock speed
  returned is \<open>0\<close>, which \<open>f'(q_l) = 1 - 2 q_l = 0\<close> does not exceed.
\<close>

theorem shock_entropy_double_counterexample:
  "fl (1 / 2) = 1 / 2 \<and>
   fl (4503599627370497 / 9007199254740992) = 4503599627370497 / 9007199254740992 \<and>
   (1 / 2 :: real) < 4503599627370497 / 9007199254740992 \<and>
   (4503599627370497 / 9007199254740992 :: real) \<le> 1 \<and>
   riemann_traffic_exact_d (1 / 2) (4503599627370497 / 9007199254740992) =
     Inr ([[1 / 2, 4503599627370497 / 9007199254740992]], [Shock 0],
          shock_reval_d (1 / 2) (4503599627370497 / 9007199254740992) 0) \<and>
   fsub 1 (fmul 2 (1 / 2)) = 0 \<and>
   \<not> fsub 1 (fmul 2 (1 / 2)) > 0"
proof -
  have fql: "f_d (1 / 2) = 1 / 4"
    by (simp add: f_d_def fmul_def fsub_def fl_half fl_quarter)
  have fqr: "f_d (4503599627370497 / 9007199254740992) = 1 / 4"
    by (simp add: f_d_def fmul_def fsub_def fl_half_prev fl_flux_half_next)
  have den: "fsub (1 / 2) (4503599627370497 / 9007199254740992) = - (1 / 9007199254740992)"
    by (simp add: fsub_def fl_ulp_half)
  have s: "fdiv (fsub (1 / 4) (1 / 4)) (- (1 / 9007199254740992)) = Inr 0"
    by (simp add: fdiv_def fsub_def fl_zero)
  have c: "fsub 1 (fmul 2 (1 / 2)) = 0"
    by (simp add: fsub_def fmul_def fl_one fl_zero)
  show ?thesis
    by (simp add: riemann_traffic_exact_d_def fql fqr den s c fl_half fl_half_next)
qed

section \<open>Shape of the argument\<close>

text \<open>
  Claim C7, as amended. The \<^verbatim>\<open>reval\<close> returned by \<^verbatim>\<open>riemann_traffic_exact\<close> (second
  definition) accepts a one-dimensional array of \<open>n\<close> values of \<open>\<xi>\<close> and returns an array
  of shape \<open>(1, n)\<close>, without failing; applied to a bare scalar it fails with TypeError,
  since it takes \<^verbatim>\<open>len(xi)\<close>. A scalar \<open>\<xi>\<close> is accepted only by the \<^verbatim>\<open>reval\<close> of the first
  definition, which returns a scalar.
\<close>

theorem reval_argument_shapes:
  fixes q_l q_r :: real
  shows "\<exists>states speeds reval reval1.
           riemann_traffic_exact q_l q_r = Inr (states, speeds, reval) \<and>
           (\<forall>xs. \<exists>row. reval (Array xs) = Inr [row] \<and> length row = length xs) \<and>
           (\<forall>x. reval (Scalar x) = Inl TypeError) \<and>
           riemann_traffic_exact_scalar q_l q_r = Inr reval1"
proof (cases "q_l < q_r")
  case True
  show ?thesis
    by (simp add: shock_branch [OF True] scalar_shock_branch [OF True] shock_reval_def)
next
  case False
  show ?thesis
    by (simp add: raref_branch [OF False] scalar_raref_branch [OF False] raref_reval_def)
qed

theorem reval_argument_shapes_witness:
  "\<exists>states speeds reval reval1.
     riemann_traffic_exact (1 / 2) (7 / 10) = Inr (states, speeds, reval) \<and>
     (\<exists>row. reval (Array [- 1, 0, 1]) = Inr [row] \<and> length row = 3) \<and>
     reval (Scalar 0) = Inl TypeError \<and>
     riemann_traffic_exact_scalar (1 / 2) (7 / 10) = Inr reval1"
  using reval_argument_shapes [where q_l = "1 / 2" and q_r = "7 / 10"]
  by (metis length_Cons list.size(3) numeral_3_eq_3)

text \<open>
  The claim as first stated, that \<^verbatim>\<open>reval\<close> is defined on a single scalar \<open>\<xi>\<close>, fails for
  the red light \<open>q_l = 1/5\<close>, \<open>q_r = 1\<close> at \<open>\<xi> = 0\<close>.
\<close>

theorem reval_scalar_argument_counterexample:
  "riemann_traffic_exact (1 / 5) 1 =
     Inr ([[1 / 5, 1]], [Shock (- 1 / 5)], shock_reval (1 / 5) 1 (- 1 / 5)) \<and>
   shock_reval (1 / 5) 1 (- 1 / 5) (Scalar 0) = Inl TypeError"
  by (simp add: riemann_traffic_exact_def py_div_def f_def shock_reval_def)

section \<open>Red light\<close>

text \<open>
  Claim C8. For the red light \<open>q_l = 0.2\<close>, \<open>q_r = 1\<close> the solver returns one shock, moving
  left, whose speed in exact arithmetic is \<open>(f(1/5) - f(1)) / (1/5 - 1) = -1/5\<close>. More
  generally, for \<open>q_r = 1\<close> and \<open>q_l < 1\<close> the shock speed is \<open>- q_l\<close>.
\<close>

theorem red_light_shock_speed:
  "(\<exists>states reval. riemann_traffic_exact (1 / 5) 1 = Inr (states, [Shock (- 1 / 5)], reval)) \<and>
   (- 1 / 5 :: real) = (f (1 / 5) - f 1) / (1 / 5 - 1) \<and> (- 1 / 5 :: real) < 0 \<and>
   (\<forall>q_l. q_l < 1 \<longrightarrow>
      (\<exists>states reval. riemann_traffic_exact q_l 1 = Inr (states, [Shock (- q_l)], reval)) \<and>
      (f q_l - f 1) / (q_l - 1) = - q_l)"
proof -
  have gen: "(\<exists>states reval. riemann_traffic_exact q_l 1 = Inr (states, [Shock (- q_l)], reval)) \<and>
      (f q_l - f 1) / (q_l - 1) = - q_l" if "q_l < 1" for q_l
  proof -
    from that have "(f q_l - f 1) / (q_l - 1) = - q_l"
      by (simp add: shock_speed_closed_form)
    with shock_branch [OF that] show ?thesis by simp
  qed
  from gen [of "1 / 5"] gen show ?thesis by simp
qed

theorem red_light_shock_speed_witness:
  "(2 / 5 :: real) < 1 \<and>
   (\<exists>states reval. riemann_traffic_exact (2 / 5) 1 = Inr (states, [Shock (- (2 / 5))], reval))"
  using red_light_shock_speed by simp

section \<open>Calls of \<open>reval\<close> and the store\<close>

text \<open>
  Claim C9. The closure \<^verbatim>\<open>reval\<close> returned by \<^verbatim>\<open>riemann_traffic_exact\<close> is deterministic
  and stateless. Let the solver run in any store and return \<^verbatim>\<open>states\<close>, \<^verbatim>\<open>speeds\<close> and
  the closure, and let the closure be called twice on the same \<open>\<xi>\<close>. Then both calls
  return equal results; the second call leaves the array returned by the first as it was;
  the result is the same in every store whatever, so no store content is read; no object
  that existed before a call is changed by it; and \<^verbatim>\<open>states\<close> and \<^verbatim>\<open>speeds\<close> still hold
  what the solver put there.
\<close>

theorem reval_deterministic_stateless:
  assumes solve: "riemann_traffic_exact_h q_l q_r h0 = (Inr (states, speeds, c), h)"
      and call1: "call_reval c xi h = (r1, h1)"
      and call2: "call_reval c xi h1 = (r2, h2)"
  shows "result_of (r1, h1) = result_of (r2, h2) \<and>
         result_of (r1, h2) = result_of (r1, h1) \<and>
         (\<forall>g. result_of (call_reval c xi g) = result_of (r1, h1)) \<and>
         (\<forall>a < length h. h1 ! a = h ! a \<and> h2 ! a = h ! a) \<and>
         states < length h \<and> speeds < length h \<and>
         h2 ! states = NdArray [[q_l, q_r]] \<and>
         (\<exists>ws. h2 ! speeds = PyList ws \<and> h ! speeds = PyList ws \<and>
            (\<exists>reval. riemann_traffic_exact q_l q_r = Inr ([[q_l, q_r]], ws, reval)))"
proof -
  have res: "result_of (call_reval c xi g) = closure_reval c xi" for g
    by (rule call_reval_result)
  from res [of h] call1 have r1: "result_of (r1, h1) = closure_reval c xi" by simp
  from res [of h1] call2 have r2: "result_of (r2, h2) = closure_reval c xi" by simp
  from call_reval_frame [OF call1]
  have f1: "length h \<le> length h1" "\<forall>a < length h. h1 ! a = h ! a"
    by simp_all
  from call_reval_frame [OF call2] have f2: "\<forall>a < length h1. h2 ! a = h1 ! a"
    by simp
  from f1 f2 have frame: "\<forall>a < length h. h1 ! a = h ! a \<and> h2 ! a = h ! a"
    by simp
  from riemann_traffic_exact_h_refines [of q_l q_r h0] solve
  have st: "states < length h" "speeds < length h"
    and objs: "\<exists>rows ws. h ! states = NdArray rows \<and> h ! speeds = PyList ws \<and>
        riemann_traffic_exact q_l q_r = Inr (rows, ws, closure_reval c)"
    by auto
  from objs obtain rows ws where o: "h ! states = NdArray rows" "h ! speeds = PyList ws"
    "riemann_traffic_exact q_l q_r = Inr (rows, ws, closure_reval c)"
    by blast
  have rows: "rows = [[q_l, q_r]]"
    using o(3) by (cases "q_l < q_r") (simp_all add: shock_branch raref_branch)
  from frame st o rows have "h2 ! states = NdArray [[q_l, q_r]]" "h2 ! speeds = PyList ws"
    by simp_all
  with r1 r2 res result_of_frame [OF call1 call2] frame st o rows show ?thesis
    by auto
qed

theorem reval_deterministic_stateless_witness:
  "riemann_traffic_exact_h (1 / 5) 1 [] =
     (Inr (0, 1, Shock_closure (1 / 5) 1 (- 1 / 5)),
      [NdArray [[1 / 5, 1]], PyList [Shock (- 1 / 5)]]) \<and>
   call_reval (Shock_closure (1 / 5) 1 (- 1 / 5)) (Array [0])
      [NdArray [[1 / 5, 1]], PyList [Shock (- 1 / 5)]] =
     (Inr 2, [NdArray [[1 / 5, 1]], PyList [Shock (- 1 / 5)], NdArray [[1]]]) \<and>
   call_reval (Shock_closure (1 / 5) 1 (- 1 / 5)) (Array [0])
      [NdArray [[1 / 5, 1]], PyList [Shock (- 1 / 5)], NdArray [[1]]] =
     (Inr 3, [NdArray [[1 / 5, 1]], PyList [Shock (- 1 / 5)], NdArray [[1]], NdArray [[1]]]) \<and>
   result_of (Inr 2, [NdArray [[1 / 5, 1]], PyList [Shock (- 1 / 5)], NdArray [[1]]]) =
   result_of (Inr 3, [NdArray [[1 / 5, 1]], PyList [Shock (- 1 / 5)], NdArray [[1]],
                      NdArray [[1]]])"
proof -
  have s: "riemann_traffic_exact_h (1 / 5) 1 [] =
     (Inr (0, 1, Shock_closure (1 / 5) 1 (- 1 / 5)),
      [NdArray [[1 / 5, 1]], PyList [Shock (- 1 / 5)]])"
    by (simp add: riemann_traffic_exact_h_def py_div_def f_def alloc_def)
  have c1: "call_reval (Shock_closure (1 / 5) 1 (- 1 / 5)) (Array [0])
      [NdArray [[1 / 5, 1]], PyList [Shock (- 1 / 5)]] =
     (Inr 2, [NdArray [[1 / 5, 1]], PyList [Shock (- 1 / 5)], NdArray [[1]]])"
    by (simp add: call_reval_def alloc_def assign_row0_def shock_elem_def)
  have c2: "call_reval (Shock_closure (1 / 5) 1 (- 1 / 5)) (Array [0])
      [NdArray [[1 / 5, 1]], PyList [Shock (- 1 / 5)], NdArray [[1]]] =
     (Inr 3, [NdArray [[1 / 5, 1]], PyList [Shock (- 1 / 5)], NdArray [[1]], NdArray [[1]]])"
    by (simp add: call_reval_def alloc_def assign_row0_def shock_elem_def)
  from reval_deterministic_stateless [OF s c1 c2] s c1 c2 show ?thesis
    by simp
qed

section \<open>Agreement of the two definitions\<close>

text \<open>
  Claim C10, as amended. In exact arithmetic, for \<open>q_l \<noteq> q_r\<close> the two definitions of
  \<^verbatim>\<open>riemann_traffic_exact\<close> agree pointwise: applied to an array, the \<^verbatim>\<open>reval\<close> of the
  second definition returns, entry by entry, what the scalar \<^verbatim>\<open>reval\<close> of the first
  returns at that \<open>\<xi>\<close>, although one compares with \<open><\<close> and \<open>>\<close> and the other with \<open>\<le>\<close>
  and \<open>\<ge>\<close>. The restriction to \<open>[0,1]\<close> is not needed.
\<close>

theorem scalar_and_array_definitions_agree:
  fixes q_l q_r :: real
  assumes "q_l \<noteq> q_r"
  shows "\<exists>reval1 states speeds reval2.
           riemann_traffic_exact_scalar q_l q_r = Inr reval1 \<and>
           riemann_traffic_exact q_l q_r = Inr (states, speeds, reval2) \<and>
           (\<forall>xs. reval2 (Array xs) = Inr [map reval1 xs])"
proof (cases "q_l < q_r")
  case True
  show ?thesis
    by (simp add: shock_branch [OF True] scalar_shock_branch [OF True]
        shock_reval_Array shock_elem_scalar)
next
  case False
  with assms have gt: "q_r < q_l" by simp
  show ?thesis
    by (simp add: raref_branch [OF False] scalar_raref_branch [OF False]
        raref_reval_Array raref_elem_scalar [OF gt])
qed

theorem scalar_and_array_definitions_agree_witness:
  "(1 :: real) \<noteq> 0 \<and>
   (\<exists>reval1 states speeds reval2.
      riemann_traffic_exact_scalar 1 0 = Inr reval1 \<and>
      riemann_traffic_exact 1 0 = Inr (states, speeds, reval2) \<and>
      reval2 (Array [- 1, 0, 1]) = Inr [map reval1 [- 1, 0, 1]])"
proof -
  have ne: "(1 :: real) \<noteq> 0" by simp
  from scalar_and_array_definitions_agree [OF ne] ne show ?thesis by blast
qed

text \<open>
  The claim as first stated fails on doubles at an end of the fan. For \<open>q_l = 0.1\<close>,
  \<open>q_r = 0\<close> the left end is \<open>c_l = 0.8\<close>; at \<open>\<xi> = 0.8\<close> the first definition returns
  \<^verbatim>\<open>(1.-xi)/2.\<close>, the double \<open>0.09999999999999998\<close>, and the second returns \<open>q_l\<close>, the
  double \<open>0.1\<close>.
\<close>

theorem definitions_differ_double_counterexample:
  "fl (1 / 10) = 3602879701896397 / 36028797018963968 \<and>
   fl (4 / 5) = 3602879701896397 / 4503599627370496 \<and>
   (3602879701896397 / 36028797018963968 :: real) \<noteq> 0 \<and>
   (3602879701896397 / 36028797018963968 :: real) \<le> 1 \<and>
   riemann_traffic_exact_scalar_d (3602879701896397 / 36028797018963968) 0 =
     Inr (raref_reval_scalar_d (3602879701896397 / 36028797018963968) 0
            (3602879701896397 / 4503599627370496) 1) \<and>
   riemann_traffic_exact_d (3602879701896397 / 36028797018963968) 0 =
     Inr ([[3602879701896397 / 36028797018963968, 0]],
          [Rarefaction (3602879701896397 / 4503599627370496) 1],
          raref_reval_d (3602879701896397 / 36028797018963968) 0
            (3602879701896397 / 4503599627370496) 1) \<and>
   raref_reval_scalar_d (3602879701896397 / 36028797018963968) 0
       (3602879701896397 / 4503599627370496) 1 (3602879701896397 / 4503599627370496) =
     900719925474099 / 9007199254740992 \<and>
   raref_reval_d (3602879701896397 / 36028797018963968) 0
       (3602879701896397 / 4503599627370496) 1 (Array [3602879701896397 / 4503599627370496]) =
     Inr [[3602879701896397 / 36028797018963968]] \<and>
   (900719925474099 / 9007199254740992 :: real) \<noteq> 3602879701896397 / 36028797018963968"
proof -
  have cl: "fsub 1 (fmul 2 (3602879701896397 / 36028797018963968)) =
      3602879701896397 / 4503599627370496"
    by (simp add: fsub_def fmul_def fl_double_tenth fl_one_minus_fifth)
  have cr: "fsub 1 (fmul 2 0) = 1"
    by (simp add: fsub_def fmul_def fl_zero fl_one)
  have sc: "raref_reval_scalar_d (3602879701896397 / 36028797018963968) 0
       (3602879701896397 / 4503599627370496) 1 (3602879701896397 / 4503599627370496) =
     900719925474099 / 9007199254740992"
    by (simp add: raref_reval_scalar_d_def fsub_def fl_one_minus_four_fifths fl_half_of_that)
  have ar: "raref_elem_d (3602879701896397 / 36028797018963968) 0
       (3602879701896397 / 4503599627370496) 1 (3602879701896397 / 4503599627370496) =
      3602879701896397 / 36028797018963968"
    by (simp add: raref_elem_d_def fadd_def fmul_def fsub_def fl_zero
        fl_one_minus_four_fifths fl_tenth_double)
  show ?thesis
    by (simp add: riemann_traffic_exact_scalar_d_def riemann_traffic_exact_d_def Let_def
        cl cr sc ar raref_reval_d_def fl_tenth fl_four_fifths)
qed

end
